theory Spec2Isabelle
  imports Complex_Main "HOL-Library.Multiset" "HOL-Library.Product_Lexorder"
begin

section \<open>The revenue forecasting worker (scripts/nhits_forecast.py)\<close>

text \<open>
  The worker reads a JSON request, normalises the records with pandas, and either
  returns the mean of the revenues (fewer than 14 rows) or trains an N-HITS model and
  validates its output. Every \<^verbatim>\<open>except\<close> of the script is a branch below.

  Numbers. A JSON integer is a Python \<^verbatim>\<open>int\<close> (unbounded) and stays apart from a JSON
  float. A Python \<^verbatim>\<open>float\<close> is a \<open>pyfloat\<close>: \<open>Fin r\<close> is the double of value \<open>r\<close>.
  Arithmetic on doubles rounds and overflows; it is not defined here but taken from the
  runtime, as a parameter (next subsection), and nothing is assumed about it.
\<close>

subsection \<open>Values\<close>

datatype pyfloat = Fin real | PInf | NInf | NaN

datatype jvalue =
    JNull
  | JBool bool
  | JInt int
  | JFloat pyfloat
  | JStr string
  | JArr "jvalue list"
  | JObj "(string \<times> jvalue) list"

text \<open>A Python number: the accumulator of \<^verbatim>\<open>sum\<close> is an \<^verbatim>\<open>int\<close> until a float is added.\<close>

datatype pynum = PInt int | PFloat pyfloat

text \<open>A raised exception: \<^verbatim>\<open>type(e).__name__\<close> and \<^verbatim>\<open>str(e)\<close>.\<close>

datatype exn = Exn (exn_type: string) (exn_msg: string)

text \<open>A raw record is a Python dict; only the keys \<^verbatim>\<open>date\<close> and \<^verbatim>\<open>revenue\<close> are read.\<close>

type_synonym raw_record = "string \<rightharpoonup> jvalue"

text \<open>A calendar date (year, month, day); the lexicographic order is the chronological one.
  \<open>None\<close> in a \<open>ds\<close> cell is pandas' \<^verbatim>\<open>NaT\<close>.\<close>

type_synonym date = "nat \<times> nat \<times> nat"

text \<open>The frame returned by \<^verbatim>\<open>prepare_data\<close>: one row \<open>(ds, y)\<close> per record. The
  column \<^verbatim>\<open>unique_id\<close> is the constant \<^verbatim>\<open>'revenue'\<close> and is left out.\<close>

type_synonym dataframe = "(date option \<times> pyfloat) list"

text \<open>\<^verbatim>\<open>np.isfinite(p)\<close> and \<^verbatim>\<open>p > 0\<close>: comparisons, exact on doubles.\<close>

fun isfinite :: "pyfloat \<Rightarrow> bool" where
  "isfinite (Fin _) = True"
| "isfinite _ = False"

fun gt0 :: "pyfloat \<Rightarrow> bool" where
  "gt0 (Fin a) = (0 < a)"
| "gt0 PInf = True"
| "gt0 _ = False"

subsection \<open>The libraries and the runtime the script calls\<close>

text \<open>
  pandas, neuralforecast and the arithmetic of the Python runtime are not part of the
  repository; they are parameters of the model.
  \<^item> \<open>to_datetime\<close>: \<^verbatim>\<open>pd.to_datetime\<close> on the whole \<^verbatim>\<open>date\<close> column; it raises or
    returns the parsed column.
  \<^item> \<open>str_to_float\<close>: \<^verbatim>\<open>float(s)\<close> on a string cell of the \<^verbatim>\<open>revenue\<close> column.
  \<^item> \<open>float_of_int\<close>: \<^verbatim>\<open>float(i)\<close>, the nearest double of an integer; it raises
    \<^verbatim>\<open>OverflowError\<close> beyond the range of doubles.
  \<^item> \<open>float_add\<close>: the sum of two doubles (rounded; an infinity on overflow).
  \<^item> \<open>float_div\<close>: a double divided by a positive count.
  \<^item> \<open>int_truediv\<close>: \<^verbatim>\<open>a / n\<close> on an integer and a positive count; it raises
    \<^verbatim>\<open>OverflowError\<close> when the quotient is beyond the range of doubles.
  \<^item> \<open>series_mean\<close>: \<^verbatim>\<open>Series.mean()\<close> of pandas on a float column.
  \<^item> \<open>nhits\<close>: building \<^verbatim>\<open>NHITS(h, input_size, ...)\<close>, \<^verbatim>\<open>nf.fit\<close>, \<^verbatim>\<open>nf.predict\<close> and
    reading the \<^verbatim>\<open>NHITS\<close> column, as one call that raises or returns the raw values.
\<close>

record library =
  to_datetime :: "jvalue list \<Rightarrow> exn + date option list"
  str_to_float :: "string \<Rightarrow> exn + pyfloat"
  float_of_int :: "int \<Rightarrow> exn + pyfloat"
  float_add :: "pyfloat \<Rightarrow> pyfloat \<Rightarrow> pyfloat"
  float_div :: "pyfloat \<Rightarrow> nat \<Rightarrow> pyfloat"
  int_truediv :: "int \<Rightarrow> nat \<Rightarrow> exn + pyfloat"
  series_mean :: "pyfloat list \<Rightarrow> pyfloat"
  nhits :: "int \<Rightarrow> int \<Rightarrow> dataframe \<Rightarrow> exn + pyfloat list"

subsection \<open>prepare\_data\<close>

text \<open>\<^verbatim>\<open>pd.DataFrame(data)[key]\<close>: the column exists when some record has the key (else
  \<^verbatim>\<open>KeyError\<close>); a record without the key gets a NaN cell.\<close>

definition cell :: "string \<Rightarrow> raw_record \<Rightarrow> jvalue" where
  "cell key d = (case d key of None \<Rightarrow> JFloat NaN | Some v \<Rightarrow> v)"

definition column :: "string \<Rightarrow> raw_record list \<Rightarrow> exn + jvalue list" where
  "column key data =
     (if list_ex (\<lambda>d. d key \<noteq> None) data then Inr (map (cell key) data)
      else Inl (Exn ''KeyError'' ([CHR 0x27] @ key @ [CHR 0x27])))"

text \<open>\<^verbatim>\<open>.astype(float)\<close> on one cell: an integer is converted (and may be too large), a
  string is parsed, a list or a dict is refused.\<close>

fun cell_to_float :: "library \<Rightarrow> jvalue \<Rightarrow> exn + pyfloat" where
  "cell_to_float L (JFloat x) = Inr x"
| "cell_to_float L (JInt i) = float_of_int L i"
| "cell_to_float L JNull = Inr NaN"
| "cell_to_float L (JBool b) = Inr (Fin (if b then 1 else 0))"
| "cell_to_float L (JStr s) = str_to_float L s"
| "cell_to_float L (JArr _) =
     Inl (Exn ''ValueError'' ''setting an array element with a sequence.'')"
| "cell_to_float L (JObj _) =
     Inl (Exn ''TypeError''
            (''float() argument must be a string or a real number, not ''
             @ [CHR 0x27] @ ''dict'' @ [CHR 0x27]))"

fun astype_float :: "library \<Rightarrow> jvalue list \<Rightarrow> exn + pyfloat list" where
  "astype_float L [] = Inr []"
| "astype_float L (v # vs) =
     (case cell_to_float L v of
        Inl e \<Rightarrow> Inl e
      | Inr x \<Rightarrow> (case astype_float L vs of Inl e \<Rightarrow> Inl e | Inr xs \<Rightarrow> Inr (x # xs)))"

text \<open>\<^verbatim>\<open>df.sort_values('ds')\<close>: ascending dates, NaT last. The order among equal dates
  is that of an insertion sort here; nothing below depends on it.\<close>

definition ds_key :: "date option \<times> pyfloat \<Rightarrow> nat \<times> date" where
  "ds_key row = (case fst row of None \<Rightarrow> (1, (0, 0, 0)) | Some t \<Rightarrow> (0, t))"

definition sort_values :: "dataframe \<Rightarrow> dataframe" where
  "sort_values rows = sort_key ds_key rows"

definition prepare_data :: "library \<Rightarrow> raw_record list \<Rightarrow> exn + dataframe" where
  "prepare_data L data =
     (case column ''date'' data of
        Inl e \<Rightarrow> Inl e
      | Inr dates \<Rightarrow>
     (case to_datetime L dates of
        Inl e \<Rightarrow> Inl e
      | Inr ds \<Rightarrow>
     (case column ''revenue'' data of
        Inl e \<Rightarrow> Inl e
      | Inr revs \<Rightarrow>
     (case astype_float L revs of
        Inl e \<Rightarrow> Inl e
      | Inr ys \<Rightarrow> Inr (sort_values (zip ds ys))))))"

subsection \<open>forecast\<close>

text \<open>\<^verbatim>\<open>df['y'].mean()\<close>, on the \<open>y\<close> column of the sorted frame.\<close>

definition y_mean :: "library \<Rightarrow> dataframe \<Rightarrow> pyfloat" where
  "y_mean L df = series_mean L (map snd df)"

text \<open>\<^verbatim>\<open>[x] * horizon\<close>: empty when the horizon is zero or negative.\<close>

definition copies :: "pyfloat \<Rightarrow> int \<Rightarrow> pyfloat list" where
  "copies x horizon = replicate (nat horizon) x"

text \<open>\<^verbatim>\<open>predictions[:horizon]\<close>: a negative bound counts from the end.\<close>

definition slice_to :: "pyfloat list \<Rightarrow> int \<Rightarrow> pyfloat list" where
  "slice_to ps horizon =
     (if 0 \<le> horizon then take (nat horizon) ps
      else take (length ps - nat (- horizon)) ps)"

text \<open>Lines 101-102: the per-element check of the raw predictions.\<close>

definition validate :: "library \<Rightarrow> dataframe \<Rightarrow> pyfloat \<Rightarrow> pyfloat" where
  "validate L df p = (if isfinite p \<and> gt0 p then p else y_mean L df)"

text \<open>The body of the outer \<^verbatim>\<open>try\<close> (lines 55-104).\<close>

definition forecast_try :: "library \<Rightarrow> raw_record list \<Rightarrow> int \<Rightarrow> exn + pyfloat list" where
  "forecast_try L data horizon =
     (case prepare_data L data of
        Inl e \<Rightarrow> Inl e
      | Inr df \<Rightarrow>
          if length df < 14 then Inr (copies (y_mean L df) horizon)
          else (case nhits L horizon (min 28 (int (length df) - 1)) df of
                  Inl e \<Rightarrow> Inl e
                | Inr raw \<Rightarrow> Inr (map (validate L df) (slice_to raw horizon))))"

text \<open>Python's \<^verbatim>\<open>+\<close> on two numbers: integers add exactly; with a float on either side
  the integer is converted first, which raises when it is too large.\<close>

fun num_add :: "library \<Rightarrow> pynum \<Rightarrow> pynum \<Rightarrow> exn + pynum" where
  "num_add L (PInt a) (PInt b) = Inr (PInt (a + b))"
| "num_add L (PInt a) (PFloat y) =
     (case float_of_int L a of Inl e \<Rightarrow> Inl e | Inr x \<Rightarrow> Inr (PFloat (float_add L x y)))"
| "num_add L (PFloat x) (PInt b) =
     (case float_of_int L b of Inl e \<Rightarrow> Inl e | Inr y \<Rightarrow> Inr (PFloat (float_add L x y)))"
| "num_add L (PFloat x) (PFloat y) = Inr (PFloat (float_add L x y))"

text \<open>\<^verbatim>\<open>sum(d.get('revenue', 0) for d in data)\<close>: starts from the integer 0, adds left to
  right; a boolean is the integer 1 or 0, anything that is not a number raises
  \<^verbatim>\<open>TypeError\<close> (the operand types that end Python's message are left out).\<close>

fun py_add :: "library \<Rightarrow> pynum \<Rightarrow> jvalue \<Rightarrow> exn + pynum" where
  "py_add L acc (JInt i) = num_add L acc (PInt i)"
| "py_add L acc (JFloat x) = num_add L acc (PFloat x)"
| "py_add L acc (JBool b) = num_add L acc (PInt (if b then 1 else 0))"
| "py_add L acc _ = Inl (Exn ''TypeError'' ''unsupported operand type(s) for +'')"

fun py_sum :: "library \<Rightarrow> pynum \<Rightarrow> jvalue list \<Rightarrow> exn + pynum" where
  "py_sum L acc [] = Inr acc"
| "py_sum L acc (v # vs) =
     (case py_add L acc v of Inl e \<Rightarrow> Inl e | Inr acc' \<Rightarrow> py_sum L acc' vs)"

definition get_revenue :: "raw_record \<Rightarrow> jvalue" where
  "get_revenue d = (case d ''revenue'' of None \<Rightarrow> JInt 0 | Some v \<Rightarrow> v)"

text \<open>\<^verbatim>\<open>total / len(data)\<close>, for \<^verbatim>\<open>len(data) > 0\<close>.\<close>

fun truediv :: "library \<Rightarrow> pynum \<Rightarrow> nat \<Rightarrow> exn + pyfloat" where
  "truediv L (PInt a) n = int_truediv L a n"
| "truediv L (PFloat x) n = Inr (float_div L x n)"

text \<open>Line 115: \<^verbatim>\<open>avg = sum(d.get('revenue', 0) for d in data) / len(data)\<close>.\<close>

definition raw_mean :: "library \<Rightarrow> raw_record list \<Rightarrow> exn + pyfloat" where
  "raw_mean L data =
     (case py_sum L (PInt 0) (map get_revenue data) of
        Inl e \<Rightarrow> Inl e
      | Inr s \<Rightarrow> truediv L s (length data))"

text \<open>The innermost handler (lines 112-117); an exception raised here leaves \<^verbatim>\<open>forecast\<close>.\<close>

definition last_fallback :: "library \<Rightarrow> raw_record list \<Rightarrow> int \<Rightarrow> exn + pyfloat list" where
  "last_fallback L data horizon =
     (if data \<noteq> [] then
        (case raw_mean L data of
           Inl e \<Rightarrow> Inl e
         | Inr avg \<Rightarrow> Inr (copies avg horizon))
      else Inr (copies (Fin 0) horizon))"

definition forecast :: "library \<Rightarrow> raw_record list \<Rightarrow> int \<Rightarrow> exn + pyfloat list" where
  "forecast L data horizon =
     (case forecast_try L data horizon of
        Inr predictions \<Rightarrow> Inr predictions
      | Inl e \<Rightarrow>
          (case prepare_data L data of
             Inr df \<Rightarrow> Inr (copies (y_mean L df) horizon)
           | Inl e' \<Rightarrow> last_fallback L data horizon))"

subsection \<open>The process entry point\<close>

text \<open>What \<^verbatim>\<open>sys.stdin.read()\<close> and \<^verbatim>\<open>json.loads\<close> give: no text, text that is not JSON
  (with the decoder's exception), or an object whose two keys may be absent.\<close>

record request =
  historical_data :: "raw_record list option"
  horizon :: "int option"

datatype stdin = No_text | Not_json exn | Json request

record response =
  success :: bool
  predictions :: "pyfloat list"
  error :: "string option"
  model :: "string option"

text \<open>The body of the \<^verbatim>\<open>try\<close> of the main block (lines 121-138).\<close>

definition main_try :: "library \<Rightarrow> stdin \<Rightarrow> exn + pyfloat list" where
  "main_try L inp =
     (case inp of
        No_text \<Rightarrow> Inl (Exn ''ValueError'' ''No input data provided'')
      | Not_json e \<Rightarrow> Inl e
      | Json input_data \<Rightarrow>
          (let hist = (case historical_data input_data of None \<Rightarrow> [] | Some h \<Rightarrow> h);
               hz = (case horizon input_data of None \<Rightarrow> 7 | Some h \<Rightarrow> h)
           in if hist = [] then Inl (Exn ''ValueError'' ''Empty historical data'')
              else (case forecast L hist hz of
                      Inl e \<Rightarrow> Inl e
                    | Inr ps \<Rightarrow>
                        if ps = [] then Inl (Exn ''ValueError'' ''No predictions generated'')
                        else Inr ps)))"

text \<open>The JSON object printed on standard output and the exit status.\<close>

definition main :: "library \<Rightarrow> stdin \<Rightarrow> response \<times> int" where
  "main L inp =
     (case main_try L inp of
        Inr ps \<Rightarrow>
          (\<lparr>success = True, predictions = ps, error = None, model = Some ''NHITS''\<rparr>, 0)
      | Inl e \<Rightarrow>
          (\<lparr>success = False, predictions = [],
            error = Some (exn_type e @ '': '' @ exn_msg e), model = None\<rparr>, 1))"

subsection \<open>An instance of the parameters, for evaluating the worker on examples\<close>

text \<open>
  Dates and strings follow the documented request format: a date is a \<^verbatim>\<open>YYYY-MM-DD\<close>
  string of the Gregorian calendar (a null or NaN cell becomes NaT), and a string is a
  float when it is a plain decimal literal; pandas also accepts other date formats and
  numeric timestamps, and Python other spellings of a float.
  The arithmetic of the instance returns the exact result when it is below \<open>2 ^ 1024\<close> in
  magnitude and overflows otherwise: it is the arithmetic of doubles wherever the exact
  result is a double (small integers, their sums, \<open>2 ^ 1023\<close>) or is at least \<open>2 ^ 1024\<close>,
  and the examples stay within these cases. No statement quantified over the library
  depends on this instance.
\<close>

definition digit :: "char \<Rightarrow> nat option" where
  "digit c =
     (let n = (of_char c :: nat) in if 48 \<le> n \<and> n \<le> 57 then Some (n - 48) else None)"

fun nat_of_digits :: "nat \<Rightarrow> string \<Rightarrow> nat option" where
  "nat_of_digits acc [] = Some acc"
| "nat_of_digits acc (c # cs) =
     (case digit c of None \<Rightarrow> None | Some d \<Rightarrow> nat_of_digits (10 * acc + d) cs)"

definition leap_year :: "nat \<Rightarrow> bool" where
  "leap_year y = (if y mod 100 = 0 then y mod 400 = 0 else y mod 4 = 0)"

definition days_in_month :: "nat \<Rightarrow> nat \<Rightarrow> nat" where
  "days_in_month y m =
     (if m = 2 then (if leap_year y then 29 else 28)
      else if m = 4 \<or> m = 6 \<or> m = 9 \<or> m = 11 then 30 else 31)"

fun iso_date :: "string \<Rightarrow> date option" where
  "iso_date [y1, y2, y3, y4, s1, m1, m2, s2, d1, d2] =
     (if s1 = CHR ''-'' \<and> s2 = CHR ''-'' then
        (case (nat_of_digits 0 [y1, y2, y3, y4], nat_of_digits 0 [m1, m2],
               nat_of_digits 0 [d1, d2]) of
           (Some y, Some m, Some d) \<Rightarrow>
             if 1 \<le> m \<and> m \<le> 12 \<and> 1 \<le> d \<and> d \<le> days_in_month y m
             then Some (y, m, d) else None
         | _ \<Rightarrow> None)
      else None)"
| "iso_date _ = None"

definition bad_date :: exn where
  "bad_date = Exn ''ValueError'' ''time data does not match format %Y-%m-%d''"

fun iso_cell :: "jvalue \<Rightarrow> exn + date option" where
  "iso_cell (JStr s) = (case iso_date s of None \<Rightarrow> Inl bad_date | Some t \<Rightarrow> Inr (Some t))"
| "iso_cell JNull = Inr None"
| "iso_cell (JFloat NaN) = Inr None"
| "iso_cell _ = Inl bad_date"

fun iso_to_datetime :: "jvalue list \<Rightarrow> exn + date option list" where
  "iso_to_datetime [] = Inr []"
| "iso_to_datetime (c # cs) =
     (case iso_cell c of
        Inl e \<Rightarrow> Inl e
      | Inr t \<Rightarrow> (case iso_to_datetime cs of Inl e \<Rightarrow> Inl e | Inr ts \<Rightarrow> Inr (t # ts)))"

definition decimal_float :: "string \<Rightarrow> exn + pyfloat" where
  "decimal_float s =
     (let ip = takeWhile (\<lambda>c. c \<noteq> CHR ''.'') s;
          fp = drop (length ip + 1) s
      in case (nat_of_digits 0 ip, nat_of_digits 0 fp) of
           (Some i, Some f) \<Rightarrow>
             if ip = [] \<and> fp = [] then Inl (Exn ''ValueError'' ''could not convert string to float'')
             else Inr (Fin (real i + real f / 10 ^ length fp))
         | _ \<Rightarrow> Inl (Exn ''ValueError'' ''could not convert string to float''))"

text \<open>An exact result as a double: itself within the range, an infinity beyond.\<close>

definition in_range :: "real \<Rightarrow> pyfloat" where
  "in_range r = (if 2 ^ 1024 \<le> r then PInf else if r \<le> - (2 ^ 1024) then NInf else Fin r)"

fun range_add :: "pyfloat \<Rightarrow> pyfloat \<Rightarrow> pyfloat" where
  "range_add (Fin a) (Fin b) = in_range (a + b)"
| "range_add NaN _ = NaN"
| "range_add _ NaN = NaN"
| "range_add PInf NInf = NaN"
| "range_add NInf PInf = NaN"
| "range_add PInf _ = PInf"
| "range_add _ PInf = PInf"
| "range_add NInf _ = NInf"
| "range_add _ NInf = NInf"

fun range_div :: "pyfloat \<Rightarrow> nat \<Rightarrow> pyfloat" where
  "range_div (Fin a) n = Fin (a / real n)"
| "range_div x n = x"

definition range_float_of_int :: "int \<Rightarrow> exn + pyfloat" where
  "range_float_of_int i =
     (case in_range (real_of_int i) of
        Fin r \<Rightarrow> Inr (Fin r)
      | _ \<Rightarrow> Inl (Exn ''OverflowError'' ''int too large to convert to float''))"

definition range_int_truediv :: "int \<Rightarrow> nat \<Rightarrow> exn + pyfloat" where
  "range_int_truediv a n =
     (case in_range (real_of_int a / real n) of
        Fin r \<Rightarrow> Inr (Fin r)
      | _ \<Rightarrow> Inl (Exn ''OverflowError'' ''integer division result too large for a float''))"

text \<open>The mean of a column as pandas takes it: NaN cells are skipped (with none left the
  mean is NaN), the others are added and the sum is divided by their number.\<close>

definition range_mean :: "pyfloat list \<Rightarrow> pyfloat" where
  "range_mean ys =
     (let vs = filter (\<lambda>v. v \<noteq> NaN) ys
      in if vs = [] then NaN else range_div (foldl range_add (Fin 0) vs) (length vs))"

text \<open>Three behaviours of the model tier: it raises, it returns the given raw values
  whatever the horizon, or it returns \<open>h\<close> copies of one value.\<close>

definition failing_model :: "int \<Rightarrow> int \<Rightarrow> dataframe \<Rightarrow> exn + pyfloat list" where
  "failing_model h input_size df = Inl (Exn ''RuntimeError'' ''training failed'')"

definition fixed_model :: "pyfloat list \<Rightarrow> int \<Rightarrow> int \<Rightarrow> dataframe \<Rightarrow> exn + pyfloat list" where
  "fixed_model raw h input_size df = Inr raw"

definition constant_model :: "pyfloat \<Rightarrow> int \<Rightarrow> int \<Rightarrow> dataframe \<Rightarrow> exn + pyfloat list" where
  "constant_model p h input_size df = Inr (replicate (nat h) p)"

definition iso_lib :: "(int \<Rightarrow> int \<Rightarrow> dataframe \<Rightarrow> exn + pyfloat list) \<Rightarrow> library" where
  "iso_lib m =
     \<lparr>to_datetime = iso_to_datetime, str_to_float = decimal_float,
      float_of_int = range_float_of_int, float_add = range_add, float_div = range_div,
      int_truediv = range_int_truediv, series_mean = range_mean, nhits = m\<rparr>"

text \<open>Example requests. \<open>huge\<close> is the double \<open>2 ^ 1023\<close>, about \<open>8.99e307\<close>: twice its
  value is beyond every double.\<close>

definition day_record :: "string \<Rightarrow> jvalue \<Rightarrow> raw_record" where
  "day_record d v = [''date'' \<mapsto> JStr d, ''revenue'' \<mapsto> v]"

definition five_days :: "raw_record list" where
  "five_days =
     [day_record ''2024-01-01'' (JInt 100), day_record ''2024-01-02'' (JInt 110),
      day_record ''2024-01-03'' (JInt 90), day_record ''2024-01-04'' (JInt 105),
      day_record ''2024-01-05'' (JInt 95)]"

definition january :: "string list" where
  "january =
     [''2024-01-01'', ''2024-01-02'', ''2024-01-03'', ''2024-01-04'', ''2024-01-05'',
      ''2024-01-06'', ''2024-01-07'', ''2024-01-08'', ''2024-01-09'', ''2024-01-10'',
      ''2024-01-11'', ''2024-01-12'', ''2024-01-13'', ''2024-01-14'']"

definition fortnight :: "real \<Rightarrow> raw_record list" where
  "fortnight r = map (\<lambda>d. day_record d (JFloat (Fin r))) january"

definition huge :: real where
  "huge = 2 ^ 1023"


text \<open>The frames of the example requests.\<close>

definition five_days_frame :: dataframe where
  "five_days_frame =
     [(Some (2024, 1, 1), Fin 100), (Some (2024, 1, 2), Fin 110),
      (Some (2024, 1, 3), Fin 90), (Some (2024, 1, 4), Fin 105),
      (Some (2024, 1, 5), Fin 95)]"


definition january_frame :: "real \<Rightarrow> dataframe" where
  "january_frame r =
     map (\<lambda>d. (Some (2024, 1, d), Fin r)) [1, 2, 3, 4, 5, 6, 7, 8, 9, 10, 11, 12, 13, 14]"

definition request_of :: "raw_record list \<Rightarrow> int \<Rightarrow> stdin" where
  "request_of data h = Json \<lparr>historical_data = Some data, horizon = Some h\<rparr>"

subsection \<open>The vocabulary of the specification\<close>

text \<open>The arithmetic mean of a list of reals; it is used on non-empty lists only.\<close>

definition arith_mean :: "real list \<Rightarrow> real" where
  "arith_mean xs = sum_list xs / real (length xs)"

text \<open>A record has a numeric revenue when the field is present and holds a JSON number.\<close>

definition numeric_revenue :: "raw_record \<Rightarrow> bool" where
  "numeric_revenue d =
     (case d ''revenue'' of
        Some (JInt i) \<Rightarrow> True | Some (JFloat x) \<Rightarrow> True | _ \<Rightarrow> False)"

text \<open>The revenue of a record as a real number, for a finite numeric revenue.\<close>

definition revenue_of :: "raw_record \<Rightarrow> real" where
  "revenue_of d =
     (case d ''revenue'' of
        Some (JInt i) \<Rightarrow> real_of_int i | Some (JFloat (Fin r)) \<Rightarrow> r | _ \<Rightarrow> 0)"

definition revenues :: "raw_record list \<Rightarrow> real list" where
  "revenues data = map revenue_of data"

text \<open>The dates of a request parse when the library accepts the \<^verbatim>\<open>date\<close> column and
  returns one timestamp per record.\<close>

definition dates_parse :: "library \<Rightarrow> raw_record list \<Rightarrow> bool" where
  "dates_parse L data =
     (case to_datetime L (map (cell ''date'') data) of
        Inr ds \<Rightarrow> length ds = length data
      | Inl e \<Rightarrow> False)"

text \<open>The revenues of a request coerce when \<^verbatim>\<open>astype(float)\<close> accepts the \<^verbatim>\<open>revenue\<close>
  column; \<open>y_column\<close> is then the column of floats, in the order of the request.\<close>

definition revenues_coerce :: "library \<Rightarrow> raw_record list \<Rightarrow> bool" where
  "revenues_coerce L data =
     (case astype_float L (map (cell ''revenue'') data) of
        Inr ys \<Rightarrow> True
      | Inl e \<Rightarrow> False)"


text \<open>A well-formed input, as the Record Normalizer of the specification accepts it:
  every record has a date and a numeric revenue, the dates parse and the revenues
  coerce to floats. (A date or a value that cannot be parsed is the specification's
  \<^verbatim>\<open>MalformedInput\<close>.)\<close>

definition well_formed :: "library \<Rightarrow> raw_record list \<Rightarrow> bool" where
  "well_formed L data =
     (list_all (\<lambda>d. d ''date'' \<noteq> None \<and> numeric_revenue d) data
      \<and> dates_parse L data \<and> revenues_coerce L data)"

text \<open>A prediction passes the check of lines 101-102.\<close>

definition valid :: "pyfloat \<Rightarrow> bool" where
  "valid p = (isfinite p \<and> gt0 p)"



section \<open>Lemmas about the model\<close>

subsection \<open>The frame of a well-formed input\<close>







subsection \<open>The branches of forecast and of the entry point\<close>

lemma forecast_short:
  "prepare_data L data = Inr df \<Longrightarrow> length df < 14 \<Longrightarrow>
   forecast L data h = Inr (copies (y_mean L df) h)"
  by (simp add: forecast_def forecast_try_def)

lemma forecast_try_model_ok:
  "prepare_data L data = Inr df \<Longrightarrow> 14 \<le> length df \<Longrightarrow>
   nhits L h (min 28 (int (length df) - 1)) df = Inr raw \<Longrightarrow>
   forecast_try L data h = Inr (map (validate L df) (slice_to raw h))"
  by (simp add: forecast_try_def)

lemma forecast_model_ok:
  "prepare_data L data = Inr df \<Longrightarrow> 14 \<le> length df \<Longrightarrow>
   nhits L h (min 28 (int (length df) - 1)) df = Inr raw \<Longrightarrow>
   forecast L data h = Inr (map (validate L df) (slice_to raw h))"
  by (simp add: forecast_def forecast_try_def)

lemma forecast_model_fail:
  "prepare_data L data = Inr df \<Longrightarrow> 14 \<le> length df \<Longrightarrow>
   nhits L h (min 28 (int (length df) - 1)) df = Inl e \<Longrightarrow>
   forecast L data h = Inr (copies (y_mean L df) h)"
  by (simp add: forecast_def forecast_try_def)





text \<open>With no record at all the frame has no \<^verbatim>\<open>date\<close> column, both calls of
  \<^verbatim>\<open>prepare_data\<close> raise and the last fallback returns zeros.\<close>

lemma forecast_empty: "forecast L [] h = Inr (copies (Fin 0) h)"
  by (simp add: forecast_def forecast_try_def prepare_data_def column_def last_fallback_def)

lemma main_ok:
  "data \<noteq> [] \<Longrightarrow> forecast L data h = Inr ps \<Longrightarrow> ps \<noteq> [] \<Longrightarrow>
   main L (request_of data h) =
     (\<lparr>success = True, predictions = ps, error = None, model = Some ''NHITS''\<rparr>, 0)"
  by (simp add: main_def main_try_def request_of_def)


subsection \<open>Length and validation of the prediction list\<close>




lemma copies_3: "copies x 3 = [x, x, x]"
  by (simp add: copies_def eval_nat_numeral)



lemma validate_eq: "validate L df p = (if valid p then p else y_mean L df)"
  by (simp add: validate_def valid_def)

lemma validate_valid: "valid (y_mean L df) \<Longrightarrow> valid (validate L df p)"
  by (simp add: validate_eq)



subsection \<open>The example requests\<close>

lemma prepare_data_five_days: "prepare_data (iso_lib m) five_days = Inr five_days_frame"
  by (simp add: prepare_data_def column_def cell_def five_days_def day_record_def iso_lib_def
      digit_def days_in_month_def leap_year_def sort_values_def ds_key_def
      range_float_of_int_def in_range_def five_days_frame_def)


lemma prepare_data_fortnight:
  "prepare_data (iso_lib m) (fortnight r) = Inr (january_frame r)"
  by (simp add: prepare_data_def column_def cell_def fortnight_def january_def day_record_def
      iso_lib_def digit_def days_in_month_def leap_year_def sort_values_def ds_key_def
      january_frame_def)



lemma well_formed_fortnight: "well_formed (iso_lib m) (fortnight r)"
  by (simp add: well_formed_def dates_parse_def revenues_coerce_def fortnight_def january_def
      day_record_def cell_def iso_lib_def numeric_revenue_def digit_def days_in_month_def
      leap_year_def)

lemma fortnight_not_Nil: "fortnight r \<noteq> []"
  by (simp add: fortnight_def january_def)

lemma length_fortnight: "length (fortnight r) = 14"
  by (simp add: fortnight_def january_def)

lemma length_january_frame: "length (january_frame r) = 14"
  by (simp add: january_frame_def)

lemma revenues_fortnight: "revenues (fortnight r) = replicate 14 r"
  by (simp add: revenues_def fortnight_def january_def day_record_def revenue_of_def
      eval_nat_numeral)

lemma arith_mean_fortnight: "arith_mean (revenues (fortnight r)) = r"
  by (simp add: revenues_fortnight arith_mean_def sum_list_replicate)


lemma y_mean_five_days: "y_mean (iso_lib m) five_days_frame = Fin 100"
  by (simp add: y_mean_def iso_lib_def range_mean_def in_range_def five_days_frame_def)

lemma length_five_days_frame: "length five_days_frame = 5"
  by (simp add: five_days_frame_def)



lemma y_mean_january_100: "y_mean (iso_lib m) (january_frame 100) = Fin 100"
  by (simp add: y_mean_def iso_lib_def range_mean_def in_range_def january_frame_def)

lemma y_mean_january_0: "y_mean (iso_lib m) (january_frame 0) = Fin 0"
  by (simp add: y_mean_def iso_lib_def range_mean_def in_range_def january_frame_def)

lemma y_mean_january_huge: "y_mean (iso_lib m) (january_frame huge) = PInf"
  by (simp add: y_mean_def iso_lib_def range_mean_def in_range_def january_frame_def huge_def)

lemma forecast_try_fortnight_model:
  assumes "\<And>df. m h 13 df = Inr raw"
  shows "forecast_try (iso_lib m) (fortnight r) h =
           Inr (map (validate (iso_lib m) (january_frame r)) (slice_to raw h))"
proof -
  have "nhits (iso_lib m) h (min 28 (int (length (january_frame r)) - 1)) (january_frame r)
          = Inr raw"
    using assms by (simp add: iso_lib_def length_january_frame)
  with prepare_data_fortnight [of m r] show ?thesis
    by (simp add: forecast_try_model_ok length_january_frame)
qed

lemma forecast_fortnight_model:
  assumes "\<And>df. m h 13 df = Inr raw"
  shows "forecast (iso_lib m) (fortnight r) h =
           Inr (map (validate (iso_lib m) (january_frame r)) (slice_to raw h))"
  using forecast_try_fortnight_model [of m h raw r, OF assms] by (simp add: forecast_def)

lemma forecast_fortnight_fail:
  assumes "\<And>df. m h 13 df = Inl e"
  shows "forecast (iso_lib m) (fortnight r) h = Inr (copies (y_mean (iso_lib m) (january_frame r)) h)"
proof -
  have "nhits (iso_lib m) h (min 28 (int (length (january_frame r)) - 1)) (january_frame r)
          = Inl e"
    using assms by (simp add: iso_lib_def length_january_frame)
  with prepare_data_fortnight [of m r] show ?thesis
    by (simp add: forecast_model_fail length_january_frame)
qed

section \<open>The claims of the specification\<close>

subsection \<open>C1: a record with an unparseable date\<close>




subsection \<open>C2: well-formed input, positive horizon\<close>



subsection \<open>C3: fewer than 14 records\<close>




subsection \<open>C4: the values returned by the model tier\<close>

text \<open>
  Claim C4 says that every value returned by the model tier is finite and strictly
  positive. A value that fails the check is replaced by the mean of the series, and the
  mean is not checked: on fourteen days of revenue 0 with raw predictions 0 the model
  tier returns seven zeros.
\<close>

theorem model_tier_nonpositive_counterexample:
  "well_formed (iso_lib (constant_model (Fin 0))) (fortnight 0)
   \<and> length (fortnight 0) = 14
   \<and> forecast_try (iso_lib (constant_model (Fin 0))) (fortnight 0) 7 = Inr (replicate 7 (Fin 0))
   \<and> forecast (iso_lib (constant_model (Fin 0))) (fortnight 0) 7 = Inr (replicate 7 (Fin 0))
   \<and> \<not> list_all valid (replicate 7 (Fin 0))"
proof -
  have m: "\<And>df. constant_model (Fin 0) 7 13 df = Inr (replicate 7 (Fin 0))"
    by (simp add: constant_model_def)
  have "forecast_try (iso_lib (constant_model (Fin 0))) (fortnight 0) 7 = Inr (replicate 7 (Fin 0))"
    using forecast_try_fortnight_model [of "constant_model (Fin 0)" 7 "replicate 7 (Fin 0)" 0, OF m]
    by (simp add: slice_to_def validate_eq valid_def y_mean_january_0)
  moreover
  have "forecast (iso_lib (constant_model (Fin 0))) (fortnight 0) 7 = Inr (replicate 7 (Fin 0))"
    using forecast_fortnight_model [of "constant_model (Fin 0)" 7 "replicate 7 (Fin 0)" 0, OF m]
    by (simp add: slice_to_def validate_eq valid_def y_mean_january_0)
  moreover have "\<not> list_all valid (replicate 7 (Fin 0))"
    by (simp add: valid_def list_all_iff)
  ultimately show ?thesis
    using well_formed_fortnight length_fortnight by simp
qed

text \<open>
  Claim C4, as the code behaves. For a series of at least 14 rows whose mean, as
  \<^verbatim>\<open>df['y'].mean()\<close> computes it, is itself finite and strictly positive, when the
  model tier succeeds every value of the returned list is finite and strictly positive.
\<close>

theorem model_tier_positive:
  assumes "prepare_data L data = Inr df" and "14 \<le> length df"
    and "nhits L h (min 28 (int (length df) - 1)) df = Inr raw"
    and "valid (y_mean L df)"
  shows "forecast L data h = Inr (map (validate L df) (slice_to raw h))
         \<and> list_all valid (map (validate L df) (slice_to raw h))"
proof -
  from assms(4) have "list_all valid (map (validate L df) (slice_to raw h))"
    by (simp add: list_all_iff validate_valid)
  moreover from assms(1,2,3)
  have "forecast L data h = Inr (map (validate L df) (slice_to raw h))"
    by (rule forecast_model_ok)
  ultimately show ?thesis by simp
qed

text \<open>
  Raw predictions with NaN, both infinities, zero and a negative value, on a series of
  mean 100.
\<close>

theorem model_tier_positive_witness:
  "prepare_data (iso_lib (fixed_model [Fin 120, NaN, Fin (- 3), PInf, Fin 0, Fin 80, NInf]))
     (fortnight 100) = Inr (january_frame 100)
   \<and> valid (y_mean (iso_lib (fixed_model [Fin 120, NaN, Fin (- 3), PInf, Fin 0, Fin 80, NInf]))
       (january_frame 100))
   \<and> forecast (iso_lib (fixed_model [Fin 120, NaN, Fin (- 3), PInf, Fin 0, Fin 80, NInf]))
       (fortnight 100) 7
     = Inr [Fin 120, Fin 100, Fin 100, Fin 100, Fin 100, Fin 80, Fin 100]
   \<and> list_all valid [Fin 120, Fin 100, Fin 100, Fin 100, Fin 100, Fin 80, Fin 100]"
proof -
  let ?raw = "[Fin 120, NaN, Fin (- 3), PInf, Fin 0, Fin 80, NInf]"
  let ?L = "iso_lib (fixed_model ?raw)"
  have df: "prepare_data ?L (fortnight 100) = Inr (january_frame 100)"
    by (rule prepare_data_fortnight)
  have big: "14 \<le> length (january_frame 100)" by (simp add: length_january_frame)
  have run: "nhits ?L 7 (min 28 (int (length (january_frame 100)) - 1)) (january_frame 100)
               = Inr ?raw"
    by (simp add: iso_lib_def fixed_model_def)
  have pos: "valid (y_mean ?L (january_frame 100))"
    by (simp add: y_mean_january_100 valid_def)
  from model_tier_positive [OF df big run pos] df pos
  show ?thesis
    by (simp add: validate_eq y_mean_january_100 valid_def slice_to_def)
qed

subsection \<open>C5: the substitution is per element\<close>

text \<open>
  Claim C5 says that a raw value failing the check is replaced by the arithmetic mean of
  the input series. It is replaced by the mean pandas computes in floating point: on
  fourteen days of revenue \<open>2 ^ 1023\<close> (arithmetic mean \<open>2 ^ 1023\<close>) the sum overflows and
  the failing values become inf, while the valid one is kept.
\<close>

theorem substituted_mean_overflow_counterexample:
  "well_formed (iso_lib (fixed_model [Fin 120, NaN, Fin (- 3)])) (fortnight huge)
   \<and> length (fortnight huge) = 14
   \<and> arith_mean (revenues (fortnight huge)) = huge
   \<and> forecast_try (iso_lib (fixed_model [Fin 120, NaN, Fin (- 3)])) (fortnight huge) 3
       = Inr [Fin 120, PInf, PInf]
   \<and> forecast (iso_lib (fixed_model [Fin 120, NaN, Fin (- 3)])) (fortnight huge) 3
       = Inr [Fin 120, PInf, PInf]"
proof -
  let ?raw = "[Fin 120, NaN, Fin (- 3)]"
  have run: "\<And>df. fixed_model ?raw 3 13 df = Inr ?raw" by (simp add: fixed_model_def)
  have t: "forecast_try (iso_lib (fixed_model ?raw)) (fortnight huge) 3
             = Inr [Fin 120, PInf, PInf]"
    using forecast_try_fortnight_model [of "fixed_model ?raw" 3 ?raw huge, OF run]
    by (simp add: slice_to_def validate_eq valid_def y_mean_january_huge)
  then have "forecast (iso_lib (fixed_model ?raw)) (fortnight huge) 3
               = Inr [Fin 120, PInf, PInf]"
    by (simp add: forecast_def)
  with t show ?thesis
    using well_formed_fortnight length_fortnight arith_mean_fortnight by simp
qed

text \<open>
  Claim C5, as the code behaves. When the model tier succeeds on a series of at least 14
  rows, the returned list is the raw list cut to the horizon with each element treated
  on its own: a finite, strictly positive value is kept, any other value is replaced by
  \<^verbatim>\<open>df['y'].mean()\<close>, the mean pandas computes in floating point over the series.
\<close>

theorem validation_per_element:
  assumes "prepare_data L data = Inr df" and "14 \<le> length df"
    and "nhits L h (min 28 (int (length df) - 1)) df = Inr raw"
  shows "forecast L data h =
           Inr (map (\<lambda>p. if valid p then p else y_mean L df) (slice_to raw h))"
proof -
  from assms have "forecast L data h = Inr (map (validate L df) (slice_to raw h))"
    by (rule forecast_model_ok)
  moreover have "validate L df = (\<lambda>p. if valid p then p else y_mean L df)"
    by (rule ext) (simp add: validate_eq)
  ultimately show ?thesis by simp
qed

text \<open>
  Eight raw values, horizon 7: the valid ones (120 and 80) pass unchanged, the others
  become the mean 100, and the eighth is cut off.
\<close>

theorem validation_per_element_witness:
  "prepare_data
     (iso_lib (fixed_model [Fin 120, NaN, Fin (- 3), PInf, Fin 0, Fin 80, NInf, Fin 7]))
     (fortnight 100) = Inr (january_frame 100)
   \<and> 14 \<le> length (january_frame 100)
   \<and> forecast (iso_lib (fixed_model [Fin 120, NaN, Fin (- 3), PInf, Fin 0, Fin 80, NInf, Fin 7]))
       (fortnight 100) 7
     = Inr [Fin 120, Fin 100, Fin 100, Fin 100, Fin 100, Fin 80, Fin 100]"
proof -
  let ?raw = "[Fin 120, NaN, Fin (- 3), PInf, Fin 0, Fin 80, NInf, Fin 7]"
  let ?L = "iso_lib (fixed_model ?raw)"
  have df: "prepare_data ?L (fortnight 100) = Inr (january_frame 100)"
    by (rule prepare_data_fortnight)
  have big: "14 \<le> length (january_frame 100)" by (simp add: length_january_frame)
  have run: "nhits ?L 7 (min 28 (int (length (january_frame 100)) - 1)) (january_frame 100)
               = Inr ?raw"
    by (simp add: iso_lib_def fixed_model_def)
  from validation_per_element [OF df big run] df big
  show ?thesis
    by (simp add: y_mean_january_100 valid_def slice_to_def)
qed

subsection \<open>C6: forecast on malformed values\<close>

text \<open>
  Claim C6 says that \<^verbatim>\<open>forecast\<close> never raises. The last fallback adds the revenue
  fields with \<^verbatim>\<open>sum\<close> and is not guarded: for the single record with date
  \<^verbatim>\<open>2024-01-01\<close> and revenue \<^verbatim>\<open>"abc"\<close>, \<^verbatim>\<open>astype(float)\<close> raises in both calls of
  \<^verbatim>\<open>prepare_data\<close>, and then \<^verbatim>\<open>0 + "abc"\<close> raises a \<^verbatim>\<open>TypeError\<close> that leaves
  \<^verbatim>\<open>forecast\<close>.
\<close>

theorem forecast_raises_on_text_revenue:
  "prepare_data (iso_lib failing_model) [day_record ''2024-01-01'' (JStr ''abc'')]
     = Inl (Exn ''ValueError'' ''could not convert string to float'')
   \<and> forecast (iso_lib failing_model) [day_record ''2024-01-01'' (JStr ''abc'')] 7
     = Inl (Exn ''TypeError'' ''unsupported operand type(s) for +'')"
  by (simp add: forecast_def forecast_try_def last_fallback_def raw_mean_def get_revenue_def
      prepare_data_def column_def cell_def day_record_def iso_lib_def digit_def
      days_in_month_def leap_year_def decimal_float_def)

subsection \<open>C7: failure of the model tier\<close>




subsection \<open>C8: no historical data\<close>

text \<open>
  Claim C8. When \<^verbatim>\<open>historical_data\<close> is absent or empty the worker prints
  \<^verbatim>\<open>success: false\<close> with no predictions and exits with status 1. The answer is the
  same for every library: no forecast is attempted.
\<close>

theorem empty_history_fails:
  assumes "hist = None \<or> hist = Some []"
  shows "main L (Json \<lparr>historical_data = hist, horizon = hz\<rparr>) =
           (\<lparr>success = False, predictions = [],
             error = Some ''ValueError: Empty historical data'', model = None\<rparr>, 1)"
  using assms by (auto simp: main_def main_try_def)

text \<open>
  An empty list, and a request without the key.
\<close>

theorem empty_history_fails_witness:
  "main (iso_lib (constant_model (Fin 120)))
     (Json \<lparr>historical_data = Some [], horizon = Some 7\<rparr>) =
     (\<lparr>success = False, predictions = [],
       error = Some ''ValueError: Empty historical data'', model = None\<rparr>, 1)
   \<and> main (iso_lib (constant_model (Fin 120)))
       (Json \<lparr>historical_data = None, horizon = None\<rparr>) =
     (\<lparr>success = False, predictions = [],
       error = Some ''ValueError: Empty historical data'', model = None\<rparr>, 1)"
  using empty_history_fails [of "Some []" "iso_lib (constant_model (Fin 120))" "Some 7"]
    empty_history_fails [of None "iso_lib (constant_model (Fin 120))" None]
  by simp

subsection \<open>C9: the model tag\<close>

text \<open>
  Claim C9 says that the tag of a success response tells which tier produced the
  predictions. The tag is the constant \<^verbatim>\<open>NHITS\<close>: five records (mean tier) and fourteen
  records with a successful model (model tier) give the same tag.
\<close>

theorem model_tag_counterexample:
  "length five_days < 14
   \<and> main (iso_lib (constant_model (Fin 120))) (request_of five_days 3) =
       (\<lparr>success = True, predictions = [Fin 100, Fin 100, Fin 100],
         error = None, model = Some ''NHITS''\<rparr>, 0)
   \<and> 14 \<le> length (fortnight 100)
   \<and> forecast_try (iso_lib (constant_model (Fin 120))) (fortnight 100) 3 =
       Inr [Fin 120, Fin 120, Fin 120]
   \<and> main (iso_lib (constant_model (Fin 120))) (request_of (fortnight 100) 3) =
       (\<lparr>success = True, predictions = [Fin 120, Fin 120, Fin 120],
         error = None, model = Some ''NHITS''\<rparr>, 0)"
proof -
  let ?L = "iso_lib (constant_model (Fin 120))"
  have ne: "five_days \<noteq> []" and len: "length five_days < 14"
    by (simp_all add: five_days_def)
  have "forecast ?L five_days 3 = Inr [Fin 100, Fin 100, Fin 100]"
    using prepare_data_five_days [of "constant_model (Fin 120)"]
    by (simp add: forecast_short y_mean_five_days copies_3 length_five_days_frame)
  with ne have short: "main ?L (request_of five_days 3) =
       (\<lparr>success = True, predictions = [Fin 100, Fin 100, Fin 100],
         error = None, model = Some ''NHITS''\<rparr>, 0)"
    by (simp add: main_ok)
  have run: "\<And>df. constant_model (Fin 120) 3 13 df = Inr [Fin 120, Fin 120, Fin 120]"
    by (simp add: constant_model_def eval_nat_numeral)
  have t: "forecast_try ?L (fortnight 100) 3 = Inr [Fin 120, Fin 120, Fin 120]"
    using forecast_try_fortnight_model [of "constant_model (Fin 120)" 3 _ 100, OF run]
    by (simp add: slice_to_def validate_eq valid_def)
  then have "forecast ?L (fortnight 100) 3 = Inr [Fin 120, Fin 120, Fin 120]"
    by (simp add: forecast_def)
  then have long: "main ?L (request_of (fortnight 100) 3) =
       (\<lparr>success = True, predictions = [Fin 120, Fin 120, Fin 120],
         error = None, model = Some ''NHITS''\<rparr>, 0)"
    using fortnight_not_Nil by (simp add: main_ok)
  from len short t long show ?thesis by (simp add: length_fortnight)
qed

text \<open>
  Claim C9, as the code behaves. Every success response carries the tag \<^verbatim>\<open>NHITS\<close>,
  whichever tier produced the predictions.
\<close>

theorem model_tag_constant:
  assumes "success (fst (main L inp))"
  shows "model (fst (main L inp)) = Some ''NHITS''"
  using assms by (auto simp: main_def split: sum.splits)

text \<open>
  Fourteen records and a model tier that raises: the mean is returned under the tag
  \<^verbatim>\<open>NHITS\<close>.
\<close>

theorem model_tag_constant_witness:
  "success (fst (main (iso_lib failing_model) (request_of (fortnight 100) 3)))
   \<and> model (fst (main (iso_lib failing_model) (request_of (fortnight 100) 3))) = Some ''NHITS''"
proof -
  have run: "\<And>df. failing_model 3 13 df = Inl (Exn ''RuntimeError'' ''training failed'')"
    by (simp add: failing_model_def)
  have "forecast (iso_lib failing_model) (fortnight 100) 3
          = Inr (copies (y_mean (iso_lib failing_model) (january_frame 100)) 3)"
    using run by (rule forecast_fortnight_fail)
  then have s: "success (fst (main (iso_lib failing_model) (request_of (fortnight 100) 3)))"
    using fortnight_not_Nil by (simp add: main_ok copies_def)
  with model_tag_constant [OF s] show ?thesis by simp
qed

subsection \<open>C10: zero or negative horizon\<close>



end
